theory Spec2Isabelle
  imports Main
begin

section \<open>The constants module of the tenant UI frontend\<close>

text \<open>
  The module \<^verbatim>\<open>services/tenant-ui/frontend/src/helpers/constants.ts\<close> exports four
  object literals: \<^verbatim>\<open>TABLE_OPT\<close>, \<^verbatim>\<open>API_PATH\<close>, \<^verbatim>\<open>CONNECTION_STATUSES\<close> and
  \<^verbatim>\<open>RESERVATION_STATUSES\<close>. Each object literal is a record with one field per
  property, in the order of the source, and the exported constant is the record value.

  A TypeScript string is a \<^typ>\<open>string\<close>; every literal of the module is ASCII. The
  numbers of \<^verbatim>\<open>TABLE_OPT\<close> are the integer literals 10, 25 and 50, read as \<^typ>\<open>int\<close>.
\<close>

subsection \<open>Table options\<close>

record table_opt =
  ROWS_DEFAULT :: int
  ROWS_OPTIONS :: "int list"

definition TABLE_OPT :: table_opt where
  "TABLE_OPT = \<lparr> ROWS_DEFAULT = 10, ROWS_OPTIONS = [10, 25, 50] \<rparr>"

subsection \<open>API paths\<close>

text \<open>
  A property of \<^verbatim>\<open>API_PATH\<close> is either a string literal or an arrow function of one
  string parameter whose body is a template literal. A template literal
  \<^verbatim>\<open>`a${x}b`\<close> over a string \<^verbatim>\<open>x\<close> evaluates to the literal chunk before the
  substitution, the value of \<^verbatim>\<open>x\<close> as it is, and the literal chunk after it,
  concatenated; so the arrow function is the function \<open>\<lambda>x. ''a'' @ x @ ''b''\<close>.
  The property commented out in the source
  (\<^verbatim>\<open>CONTACTS_RECEIVE_INVITATION\<close>) is no property of the object.
\<close>

record api_path =
  CONFIG :: string
  EMAIL_CONFIRMATION :: string
  EMAIL_STATUS :: string
  INNKEEPER_TOKEN :: string
  INNKEEPER_TENANTS :: string
  INNKEEPER_TENANT :: "string \<Rightarrow> string"
  INNKEEPER_RESERVATIONS :: string
  INNKEEPER_RESERVATIONS_APPROVE :: "string \<Rightarrow> string"
  INNKEEPER_RESERVATIONS_DENY :: "string \<Rightarrow> string"
  OIDC_INNKEEPER_LOGIN :: string
  TENANT_TOKEN :: string
  CONNECTIONS :: string
  CONNECTION :: "string \<Rightarrow> string"
  CONNECTIONS_CREATE_INVITATION :: string
  CONNECTIONS_INVITATION :: "string \<Rightarrow> string"
  HOLDER_CREDENTIALS :: string
  HOLDER_CREDENTIALS_ACCEPT_OFFER :: "string \<Rightarrow> string"
  HOLDER_CREDENTIALS_REJECT_OFFER :: "string \<Rightarrow> string"
  HOLDER_CREDENTIAL :: "string \<Rightarrow> string"
  HOLDER_PRESENTATIONS :: string
  HOLDER_PRESENTATION :: "string \<Rightarrow> string"
  ISSUER_CREDENTIALS :: string
  ISSUER_CREDENTIAL :: "string \<Rightarrow> string"
  ISSUER_CREDENTIAL_REVOKE :: "string \<Rightarrow> string"
  VERIFIER_PRESENTATIONS :: string
  VERIFIER_PRESENTATION :: "string \<Rightarrow> string"
  VERIFIER_PRESENTATION_ADHOC_REQUEST :: string
  VERIFIER_PRESENTATION_TEMPLATES :: string
  GOVERNANCE_SCHEMA_TEMPLATES :: string
  GOVERNANCE_SCHEMA_TEMPLATES_IMPORT :: string
  GOVERNANCE_SCHEMA_TEMPLATE :: "string \<Rightarrow> string"
  GOVERNANCE_CREDENTIAL_TEMPLATES :: string
  GOVERNANCE_CREDENTIAL_TEMPLATE :: "string \<Rightarrow> string"
  BASICMESSAGES :: string
  BASICMESSAGES_SEND :: "string \<Rightarrow> string"
  TENANT_SELF :: string
  TENANT_ENDORSER_CONNECTION :: string
  TENANT_ENDORSER_INFO :: string
  TENANT_REGISTER_PUBLIC_DID :: string
  MULTITENANCY_RESERVATIONS :: string
  MULTITENANCY_RESERVATION :: "string \<Rightarrow> string"
  MULTITENANCY_RESERVATION_CHECK_IN :: "string \<Rightarrow> string"
  MULTITENANCY_TENANT_TOKEN :: "string \<Rightarrow> string"
  MULTITENANCY_WALLET_TOKEN :: "string \<Rightarrow> string"
  WALLET_DID_PUBLIC :: string

definition API_PATH :: api_path where
  "API_PATH =
     \<lparr> CONFIG = ''/config'',
       EMAIL_CONFIRMATION = ''/email/reservationConfirmation'',
       EMAIL_STATUS = ''/email/reservationStatus'',
       INNKEEPER_TOKEN = ''/innkeeper/token'',
       INNKEEPER_TENANTS = ''/innkeeper/tenants/'',
       INNKEEPER_TENANT = (\<lambda>id. ''/innkeeper/tenants/'' @ id),
       INNKEEPER_RESERVATIONS = ''/innkeeper/reservations/'',
       INNKEEPER_RESERVATIONS_APPROVE =
         (\<lambda>id. ''/innkeeper/reservations/'' @ id @ ''/approve''),
       INNKEEPER_RESERVATIONS_DENY =
         (\<lambda>id. ''/innkeeper/reservations/'' @ id @ ''/deny''),
       OIDC_INNKEEPER_LOGIN = ''/api/innkeeperLogin'',
       TENANT_TOKEN = ''/tenant/token'',
       CONNECTIONS = ''/connections'',
       CONNECTION = (\<lambda>id. ''/connections/'' @ id),
       CONNECTIONS_CREATE_INVITATION = ''/connections/create-invitation'',
       CONNECTIONS_INVITATION = (\<lambda>id. ''/connections/'' @ id @ ''/invitation''),
       HOLDER_CREDENTIALS = ''/tenant/v1/holder/credentials/'',
       HOLDER_CREDENTIALS_ACCEPT_OFFER =
         (\<lambda>id. ''/tenant/v1/holder/credentials/'' @ id @ ''/accept-offer''),
       HOLDER_CREDENTIALS_REJECT_OFFER =
         (\<lambda>id. ''/tenant/v1/holder/credentials/'' @ id @ ''/reject-offer''),
       HOLDER_CREDENTIAL = (\<lambda>id. ''/tenant/v1/holder/credentials/'' @ id),
       HOLDER_PRESENTATIONS = ''/tenant/v1/holder/presentations/'',
       HOLDER_PRESENTATION = (\<lambda>id. ''/tenant/v1/holder/presentations/'' @ id),
       ISSUER_CREDENTIALS = ''/tenant/v1/issuer/credentials/'',
       ISSUER_CREDENTIAL = (\<lambda>id. ''/tenant/v1/issuer/credentials/'' @ id),
       ISSUER_CREDENTIAL_REVOKE =
         (\<lambda>id. ''/tenant/v1/issuer/credentials/'' @ id @ ''/revoke-credential''),
       VERIFIER_PRESENTATIONS = ''/tenant/v1/verifier/presentations/'',
       VERIFIER_PRESENTATION =
         (\<lambda>id. ''/tenant/v1/verifier/presentations/'' @ id),
       VERIFIER_PRESENTATION_ADHOC_REQUEST =
         ''/tenant/v1/verifier/presentations/adhoc-request'',
       VERIFIER_PRESENTATION_TEMPLATES =
         ''/tenant/v1/verifier/presentation_templates/'',
       GOVERNANCE_SCHEMA_TEMPLATES = ''/tenant/v1/governance/schema_templates/'',
       GOVERNANCE_SCHEMA_TEMPLATES_IMPORT =
         ''/tenant/v1/governance/schema_templates/import'',
       GOVERNANCE_SCHEMA_TEMPLATE =
         (\<lambda>id. ''/tenant/v1/governance/schema_templates/'' @ id),
       GOVERNANCE_CREDENTIAL_TEMPLATES =
         ''/tenant/v1/governance/credential_templates/'',
       GOVERNANCE_CREDENTIAL_TEMPLATE =
         (\<lambda>id. ''/tenant/v1/governance/credential_templates/'' @ id),
       BASICMESSAGES = ''/basicmessages'',
       BASICMESSAGES_SEND = (\<lambda>connId. ''/connections/'' @ connId @ ''/send-message''),
       TENANT_SELF = ''/tenant'',
       TENANT_ENDORSER_CONNECTION = ''/tenant/endorser-connection'',
       TENANT_ENDORSER_INFO = ''/tenant/endorser-info'',
       TENANT_REGISTER_PUBLIC_DID = ''/tenant/register-public-did'',
       MULTITENANCY_RESERVATIONS = ''/multitenancy/reservations'',
       MULTITENANCY_RESERVATION = (\<lambda>resId. ''/multitenancy/reservations/'' @ resId),
       MULTITENANCY_RESERVATION_CHECK_IN =
         (\<lambda>resId. ''/multitenancy/reservations/'' @ resId @ ''/check-in''),
       MULTITENANCY_TENANT_TOKEN =
         (\<lambda>tenantId. ''/multitenancy/tenant/'' @ tenantId @ ''/token''),
       MULTITENANCY_WALLET_TOKEN =
         (\<lambda>tenantId. ''/multitenancy/wallet/'' @ tenantId @ ''/token''),
       WALLET_DID_PUBLIC = ''/wallet/did/public'' \<rparr>"

text \<open>
  The property values of an object that are strings (its constant paths), and those that
  are functions (its templated-path accessors), each in property order.
\<close>

definition constant_paths :: "api_path \<Rightarrow> string list" where
  "constant_paths a =
     [CONFIG a, EMAIL_CONFIRMATION a, EMAIL_STATUS a, INNKEEPER_TOKEN a,
      INNKEEPER_TENANTS a, INNKEEPER_RESERVATIONS a, OIDC_INNKEEPER_LOGIN a,
      TENANT_TOKEN a, CONNECTIONS a, CONNECTIONS_CREATE_INVITATION a,
      HOLDER_CREDENTIALS a, HOLDER_PRESENTATIONS a, ISSUER_CREDENTIALS a,
      VERIFIER_PRESENTATIONS a, VERIFIER_PRESENTATION_ADHOC_REQUEST a,
      VERIFIER_PRESENTATION_TEMPLATES a, GOVERNANCE_SCHEMA_TEMPLATES a,
      GOVERNANCE_SCHEMA_TEMPLATES_IMPORT a, GOVERNANCE_CREDENTIAL_TEMPLATES a,
      BASICMESSAGES a, TENANT_SELF a, TENANT_ENDORSER_CONNECTION a,
      TENANT_ENDORSER_INFO a, TENANT_REGISTER_PUBLIC_DID a,
      MULTITENANCY_RESERVATIONS a, WALLET_DID_PUBLIC a]"

definition templated_paths :: "api_path \<Rightarrow> (string \<Rightarrow> string) list" where
  "templated_paths a =
     [INNKEEPER_TENANT a, INNKEEPER_RESERVATIONS_APPROVE a,
      INNKEEPER_RESERVATIONS_DENY a, CONNECTION a, CONNECTIONS_INVITATION a,
      HOLDER_CREDENTIALS_ACCEPT_OFFER a, HOLDER_CREDENTIALS_REJECT_OFFER a,
      HOLDER_CREDENTIAL a, HOLDER_PRESENTATION a, ISSUER_CREDENTIAL a,
      ISSUER_CREDENTIAL_REVOKE a, VERIFIER_PRESENTATION a,
      GOVERNANCE_SCHEMA_TEMPLATE a, GOVERNANCE_CREDENTIAL_TEMPLATE a,
      BASICMESSAGES_SEND a, MULTITENANCY_RESERVATION a,
      MULTITENANCY_RESERVATION_CHECK_IN a, MULTITENANCY_TENANT_TOKEN a,
      MULTITENANCY_WALLET_TOKEN a]"

subsection \<open>Status vocabularies\<close>

record connection_statuses =
  INVITATION :: string
  ACTIVE :: string
  RESPONSE :: string

definition CONNECTION_STATUSES :: connection_statuses where
  "CONNECTION_STATUSES =
     \<lparr> INVITATION = ''invitation'',
       ACTIVE = ''active'',
       RESPONSE = ''response'' \<rparr>"

text \<open>The values of the object, in property order (\<^verbatim>\<open>Object.values\<close>).\<close>

definition connection_status_values :: "connection_statuses \<Rightarrow> string list" where
  "connection_status_values c = [INVITATION c, ACTIVE c, RESPONSE c]"

record reservation_statuses =
  APPROVED :: string
  CHECKED_IN :: string
  DENIED :: string
  REQUESTED :: string
  SHOW_WALLET :: string

text \<open>
  The source marks \<^verbatim>\<open>SHOW_WALLET\<close> as "Not an API status, but the state on the FE
  when just checked-in so they can one-time see the wallet key".
\<close>

definition RESERVATION_STATUSES :: reservation_statuses where
  "RESERVATION_STATUSES =
     \<lparr> APPROVED = ''approved'',
       CHECKED_IN = ''checked_in'',
       DENIED = ''denied'',
       REQUESTED = ''requested'',
       SHOW_WALLET = ''show_wallet'' \<rparr>"

definition reservation_status_values :: "reservation_statuses \<Rightarrow> string list" where
  "reservation_status_values r =
     [APPROVED r, CHECKED_IN r, DENIED r, REQUESTED r, SHOW_WALLET r]"

text \<open>The four statuses the API reports: every property but \<^verbatim>\<open>SHOW_WALLET\<close>.\<close>

definition reservation_api_status_values :: "reservation_statuses \<Rightarrow> string list" where
  "reservation_api_status_values r = [APPROVED r, CHECKED_IN r, DENIED r, REQUESTED r]"

section \<open>Auxiliary facts\<close>

text \<open>
  Every templated-path accessor is a literal prefix, the argument, and a literal suffix
  (empty where the substitution ends the template), in property order.
\<close>

lemma templated_paths_slots:
  "templated_paths API_PATH =
     map (\<lambda>(pre, suf). (\<lambda>s. pre @ s @ suf))
       [(''/innkeeper/tenants/'', ''''),
        (''/innkeeper/reservations/'', ''/approve''),
        (''/innkeeper/reservations/'', ''/deny''),
        (''/connections/'', ''''),
        (''/connections/'', ''/invitation''),
        (''/tenant/v1/holder/credentials/'', ''/accept-offer''),
        (''/tenant/v1/holder/credentials/'', ''/reject-offer''),
        (''/tenant/v1/holder/credentials/'', ''''),
        (''/tenant/v1/holder/presentations/'', ''''),
        (''/tenant/v1/issuer/credentials/'', ''''),
        (''/tenant/v1/issuer/credentials/'', ''/revoke-credential''),
        (''/tenant/v1/verifier/presentations/'', ''''),
        (''/tenant/v1/governance/schema_templates/'', ''''),
        (''/tenant/v1/governance/credential_templates/'', ''''),
        (''/connections/'', ''/send-message''),
        (''/multitenancy/reservations/'', ''''),
        (''/multitenancy/reservations/'', ''/check-in''),
        (''/multitenancy/tenant/'', ''/token''),
        (''/multitenancy/wallet/'', ''/token'')]"
  by (simp add: templated_paths_def API_PATH_def)

lemma slots_shape:
  assumes "f \<in> set (map (\<lambda>(pre, suf). (\<lambda>s. pre @ s @ suf)) slots)"
    and "\<forall>(pre, suf) \<in> set slots. pre \<noteq> [] \<and> hd pre = CHR ''/''"
  shows "\<exists>pre suf. pre \<noteq> [] \<and> hd pre = CHR ''/'' \<and> f = (\<lambda>s. pre @ s @ suf)"
proof -
  from assms(1) obtain pre suf where "(pre, suf) \<in> set slots" "f = (\<lambda>s. pre @ s @ suf)"
    by auto
  with assms(2) show ?thesis by blast
qed

lemma templated_paths_shape:
  assumes "f \<in> set (templated_paths API_PATH)"
  shows "\<exists>pre suf. pre \<noteq> [] \<and> hd pre = CHR ''/'' \<and> f = (\<lambda>s. pre @ s @ suf)"
  using assms unfolding templated_paths_slots by (rule slots_shape) simp

lemma constant_paths_slash:
  "\<forall>p \<in> set (constant_paths API_PATH). p \<noteq> [] \<and> hd p = CHR ''/''"
  by (simp add: constant_paths_def API_PATH_def)

section \<open>Properties\<close>

subsection \<open>API paths\<close>

text \<open>
  C1: every templated-path accessor of \<^verbatim>\<open>API_PATH\<close> returns, for every string
  \<open>ident\<close>, its fixed prefix, then \<open>ident\<close>, then its fixed suffix; in particular
  \<^verbatim>\<open>INNKEEPER_TENANT("abc-123")\<close> is \<^verbatim>\<open>/innkeeper/tenants/abc-123\<close> and
  \<^verbatim>\<open>BASICMESSAGES_SEND("conn-1")\<close> is \<^verbatim>\<open>/connections/conn-1/send-message\<close>.
\<close>

theorem templated_path_prefix_id_suffix:
  "INNKEEPER_TENANT API_PATH ident = ''/innkeeper/tenants/'' @ ident
   \<and> INNKEEPER_RESERVATIONS_APPROVE API_PATH ident = ''/innkeeper/reservations/'' @ ident @ ''/approve''
   \<and> INNKEEPER_RESERVATIONS_DENY API_PATH ident = ''/innkeeper/reservations/'' @ ident @ ''/deny''
   \<and> CONNECTION API_PATH ident = ''/connections/'' @ ident
   \<and> CONNECTIONS_INVITATION API_PATH ident = ''/connections/'' @ ident @ ''/invitation''
   \<and> HOLDER_CREDENTIALS_ACCEPT_OFFER API_PATH ident
       = ''/tenant/v1/holder/credentials/'' @ ident @ ''/accept-offer''
   \<and> HOLDER_CREDENTIALS_REJECT_OFFER API_PATH ident
       = ''/tenant/v1/holder/credentials/'' @ ident @ ''/reject-offer''
   \<and> HOLDER_CREDENTIAL API_PATH ident = ''/tenant/v1/holder/credentials/'' @ ident
   \<and> HOLDER_PRESENTATION API_PATH ident = ''/tenant/v1/holder/presentations/'' @ ident
   \<and> ISSUER_CREDENTIAL API_PATH ident = ''/tenant/v1/issuer/credentials/'' @ ident
   \<and> ISSUER_CREDENTIAL_REVOKE API_PATH ident
       = ''/tenant/v1/issuer/credentials/'' @ ident @ ''/revoke-credential''
   \<and> VERIFIER_PRESENTATION API_PATH ident = ''/tenant/v1/verifier/presentations/'' @ ident
   \<and> GOVERNANCE_SCHEMA_TEMPLATE API_PATH ident = ''/tenant/v1/governance/schema_templates/'' @ ident
   \<and> GOVERNANCE_CREDENTIAL_TEMPLATE API_PATH ident
       = ''/tenant/v1/governance/credential_templates/'' @ ident
   \<and> BASICMESSAGES_SEND API_PATH ident = ''/connections/'' @ ident @ ''/send-message''
   \<and> MULTITENANCY_RESERVATION API_PATH ident = ''/multitenancy/reservations/'' @ ident
   \<and> MULTITENANCY_RESERVATION_CHECK_IN API_PATH ident
       = ''/multitenancy/reservations/'' @ ident @ ''/check-in''
   \<and> MULTITENANCY_TENANT_TOKEN API_PATH ident = ''/multitenancy/tenant/'' @ ident @ ''/token''
   \<and> MULTITENANCY_WALLET_TOKEN API_PATH ident = ''/multitenancy/wallet/'' @ ident @ ''/token''
   \<and> INNKEEPER_TENANT API_PATH ''abc-123'' = ''/innkeeper/tenants/abc-123''
   \<and> BASICMESSAGES_SEND API_PATH ''conn-1'' = ''/connections/conn-1/send-message''"
  by (simp add: API_PATH_def)

text \<open>
  C2: every constant path of \<^verbatim>\<open>API_PATH\<close> equals its documented literal, character
  for character; among them \<^verbatim>\<open>CONFIG\<close>, \<^verbatim>\<open>INNKEEPER_TENANTS\<close>,
  \<^verbatim>\<open>OIDC_INNKEEPER_LOGIN\<close>, \<^verbatim>\<open>VERIFIER_PRESENTATION_ADHOC_REQUEST\<close> and
  \<^verbatim>\<open>WALLET_DID_PUBLIC\<close>.
\<close>

theorem constant_paths_literals:
  "CONFIG API_PATH = ''/config''
   \<and> EMAIL_CONFIRMATION API_PATH = ''/email/reservationConfirmation''
   \<and> EMAIL_STATUS API_PATH = ''/email/reservationStatus''
   \<and> INNKEEPER_TOKEN API_PATH = ''/innkeeper/token''
   \<and> INNKEEPER_TENANTS API_PATH = ''/innkeeper/tenants/''
   \<and> INNKEEPER_RESERVATIONS API_PATH = ''/innkeeper/reservations/''
   \<and> OIDC_INNKEEPER_LOGIN API_PATH = ''/api/innkeeperLogin''
   \<and> TENANT_TOKEN API_PATH = ''/tenant/token''
   \<and> CONNECTIONS API_PATH = ''/connections''
   \<and> CONNECTIONS_CREATE_INVITATION API_PATH = ''/connections/create-invitation''
   \<and> HOLDER_CREDENTIALS API_PATH = ''/tenant/v1/holder/credentials/''
   \<and> HOLDER_PRESENTATIONS API_PATH = ''/tenant/v1/holder/presentations/''
   \<and> ISSUER_CREDENTIALS API_PATH = ''/tenant/v1/issuer/credentials/''
   \<and> VERIFIER_PRESENTATIONS API_PATH = ''/tenant/v1/verifier/presentations/''
   \<and> VERIFIER_PRESENTATION_ADHOC_REQUEST API_PATH
       = ''/tenant/v1/verifier/presentations/adhoc-request''
   \<and> VERIFIER_PRESENTATION_TEMPLATES API_PATH
       = ''/tenant/v1/verifier/presentation_templates/''
   \<and> GOVERNANCE_SCHEMA_TEMPLATES API_PATH = ''/tenant/v1/governance/schema_templates/''
   \<and> GOVERNANCE_SCHEMA_TEMPLATES_IMPORT API_PATH
       = ''/tenant/v1/governance/schema_templates/import''
   \<and> GOVERNANCE_CREDENTIAL_TEMPLATES API_PATH
       = ''/tenant/v1/governance/credential_templates/''
   \<and> BASICMESSAGES API_PATH = ''/basicmessages''
   \<and> TENANT_SELF API_PATH = ''/tenant''
   \<and> TENANT_ENDORSER_CONNECTION API_PATH = ''/tenant/endorser-connection''
   \<and> TENANT_ENDORSER_INFO API_PATH = ''/tenant/endorser-info''
   \<and> TENANT_REGISTER_PUBLIC_DID API_PATH = ''/tenant/register-public-did''
   \<and> MULTITENANCY_RESERVATIONS API_PATH = ''/multitenancy/reservations''
   \<and> WALLET_DID_PUBLIC API_PATH = ''/wallet/did/public''"
  by (simp add: API_PATH_def)

text \<open>
  C3: every path of the module is a non-empty string whose first character is a slash:
  each constant path, and the result of each templated-path accessor on every string.
\<close>

theorem paths_begin_with_slash:
  "(\<forall>p \<in> set (constant_paths API_PATH). p \<noteq> [] \<and> hd p = CHR ''/'')
   \<and> (\<forall>f \<in> set (templated_paths API_PATH). \<forall>s. f s \<noteq> [] \<and> hd (f s) = CHR ''/'')"
proof (intro conjI ballI allI)
  fix p assume "p \<in> set (constant_paths API_PATH)"
  with constant_paths_slash show "p \<noteq> []" and "hd p = CHR ''/''" by blast+
next
  fix f s assume "f \<in> set (templated_paths API_PATH)"
  then obtain pre suf where ps: "pre \<noteq> []" "hd pre = CHR ''/''" "f = (\<lambda>s. pre @ s @ suf)"
    using templated_paths_shape by blast
  from ps show "f s \<noteq> []" by simp
  from ps show "hd (f s) = CHR ''/''" by simp
qed

theorem paths_begin_with_slash_witness:
  "CONFIG API_PATH \<in> set (constant_paths API_PATH)
   \<and> CONFIG API_PATH \<noteq> [] \<and> hd (CONFIG API_PATH) = CHR ''/''
   \<and> INNKEEPER_TENANT API_PATH \<in> set (templated_paths API_PATH)
   \<and> INNKEEPER_TENANT API_PATH '''' \<noteq> []
   \<and> hd (INNKEEPER_TENANT API_PATH '''') = CHR ''/''"
proof -
  have c: "CONFIG API_PATH \<in> set (constant_paths API_PATH)"
    by (simp add: constant_paths_def)
  have t: "INNKEEPER_TENANT API_PATH \<in> set (templated_paths API_PATH)"
    by (simp add: templated_paths_def)
  from paths_begin_with_slash c t show ?thesis by blast
qed

text \<open>
  C7: every templated-path accessor returns, on every string, the string with the
  argument in its slot as it is: nothing is validated, escaped or URL-encoded, so the
  result is exactly as long as prefix, argument and suffix together. This holds for the
  empty string and for arguments containing a slash, a question mark, a hash or a space.
  The accessors are total functions: the source has no branch that throws.
\<close>

theorem templated_paths_verbatim:
  "(\<forall>f \<in> set (templated_paths API_PATH).
      \<exists>pre suf. \<forall>s. f s = pre @ s @ suf
        \<and> length (f s) = length pre + length s + length suf)
   \<and> INNKEEPER_TENANT API_PATH '''' = ''/innkeeper/tenants/''
   \<and> INNKEEPER_TENANT API_PATH ''a/b'' = ''/innkeeper/tenants/a/b''
   \<and> INNKEEPER_TENANT API_PATH ''a?b=c'' = ''/innkeeper/tenants/a?b=c''
   \<and> INNKEEPER_TENANT API_PATH ''a#b'' = ''/innkeeper/tenants/a#b''
   \<and> INNKEEPER_TENANT API_PATH ''a b'' = ''/innkeeper/tenants/a b''
   \<and> INNKEEPER_RESERVATIONS_APPROVE API_PATH '''' = ''/innkeeper/reservations//approve''
   \<and> INNKEEPER_RESERVATIONS_DENY API_PATH ''../x'' = ''/innkeeper/reservations/../x/deny''
   \<and> MULTITENANCY_RESERVATION API_PATH '''' = ''/multitenancy/reservations/''
   \<and> MULTITENANCY_RESERVATION API_PATH ''a/b?c#d e''
       = ''/multitenancy/reservations/a/b?c#d e''
   \<and> MULTITENANCY_RESERVATION_CHECK_IN API_PATH ''r 1'' = ''/multitenancy/reservations/r 1/check-in''"
proof -
  have "\<forall>f \<in> set (templated_paths API_PATH).
      \<exists>pre suf. \<forall>s. f s = pre @ s @ suf
        \<and> length (f s) = length pre + length s + length suf"
  proof
    fix f assume "f \<in> set (templated_paths API_PATH)"
    then obtain pre suf where "f = (\<lambda>s. pre @ s @ suf)"
      using templated_paths_shape by blast
    then have "\<forall>s. f s = pre @ s @ suf
        \<and> length (f s) = length pre + length s + length suf" by simp
    then show "\<exists>pre suf. \<forall>s. f s = pre @ s @ suf
        \<and> length (f s) = length pre + length s + length suf" by blast
  qed
  then show ?thesis by (simp add: API_PATH_def)
qed

theorem templated_paths_verbatim_witness:
  "MULTITENANCY_RESERVATION API_PATH \<in> set (templated_paths API_PATH)
   \<and> (\<exists>pre suf. \<forall>s. MULTITENANCY_RESERVATION API_PATH s = pre @ s @ suf
        \<and> length (MULTITENANCY_RESERVATION API_PATH s) = length pre + length s + length suf)"
proof -
  have m: "MULTITENANCY_RESERVATION API_PATH \<in> set (templated_paths API_PATH)"
    by (simp add: templated_paths_def)
  from templated_paths_verbatim m show ?thesis by blast
qed

text \<open>
  C9: on the empty string, an item-path accessor whose collection constant ends in a
  slash returns that collection constant, as \<^verbatim>\<open>INNKEEPER_TENANT\<close> and
  \<^verbatim>\<open>HOLDER_CREDENTIAL\<close> do; \<^verbatim>\<open>CONNECTION("")\<close> is \<^verbatim>\<open>/connections/\<close>, which
  differs from \<^verbatim>\<open>CONNECTIONS\<close>, \<^verbatim>\<open>/connections\<close>.
\<close>

theorem empty_id_item_paths:
  "INNKEEPER_TENANT API_PATH '''' = INNKEEPER_TENANTS API_PATH
   \<and> HOLDER_CREDENTIAL API_PATH '''' = HOLDER_CREDENTIALS API_PATH
   \<and> HOLDER_PRESENTATION API_PATH '''' = HOLDER_PRESENTATIONS API_PATH
   \<and> ISSUER_CREDENTIAL API_PATH '''' = ISSUER_CREDENTIALS API_PATH
   \<and> VERIFIER_PRESENTATION API_PATH '''' = VERIFIER_PRESENTATIONS API_PATH
   \<and> GOVERNANCE_SCHEMA_TEMPLATE API_PATH '''' = GOVERNANCE_SCHEMA_TEMPLATES API_PATH
   \<and> GOVERNANCE_CREDENTIAL_TEMPLATE API_PATH '''' = GOVERNANCE_CREDENTIAL_TEMPLATES API_PATH
   \<and> CONNECTION API_PATH '''' = ''/connections/''
   \<and> CONNECTIONS API_PATH = ''/connections''
   \<and> CONNECTION API_PATH '''' \<noteq> CONNECTIONS API_PATH"
  by (simp add: API_PATH_def)

text \<open>
  C10: an item-path accessor can return the path of another, constant endpoint:
  \<^verbatim>\<open>VERIFIER_PRESENTATION("adhoc-request")\<close> is
  \<^verbatim>\<open>VERIFIER_PRESENTATION_ADHOC_REQUEST\<close> and
  \<^verbatim>\<open>GOVERNANCE_SCHEMA_TEMPLATE("import")\<close> is
  \<^verbatim>\<open>GOVERNANCE_SCHEMA_TEMPLATES_IMPORT\<close>; so some accessor result is a constant path.
\<close>

theorem item_path_collides_with_constant:
  "VERIFIER_PRESENTATION API_PATH ''adhoc-request''
     = VERIFIER_PRESENTATION_ADHOC_REQUEST API_PATH
   \<and> GOVERNANCE_SCHEMA_TEMPLATE API_PATH ''import''
     = GOVERNANCE_SCHEMA_TEMPLATES_IMPORT API_PATH
   \<and> (\<exists>f s. f \<in> set (templated_paths API_PATH) \<and> f s \<in> set (constant_paths API_PATH))"
proof -
  have e: "VERIFIER_PRESENTATION API_PATH ''adhoc-request''
     = VERIFIER_PRESENTATION_ADHOC_REQUEST API_PATH"
    "GOVERNANCE_SCHEMA_TEMPLATE API_PATH ''import''
     = GOVERNANCE_SCHEMA_TEMPLATES_IMPORT API_PATH"
    by (simp_all add: API_PATH_def)
  have "VERIFIER_PRESENTATION API_PATH \<in> set (templated_paths API_PATH)"
    by (simp add: templated_paths_def)
  moreover have "VERIFIER_PRESENTATION_ADHOC_REQUEST API_PATH \<in> set (constant_paths API_PATH)"
    by (simp add: constant_paths_def)
  ultimately show ?thesis using e by metis
qed

subsection \<open>Table options\<close>

text \<open>
  C4: \<^verbatim>\<open>TABLE_OPT.ROWS_DEFAULT\<close> is 10 and is an element of
  \<^verbatim>\<open>TABLE_OPT.ROWS_OPTIONS\<close>, which is exactly the list [10, 25, 50] and is strictly
  ascending.
\<close>

theorem table_opt_rows:
  "ROWS_DEFAULT TABLE_OPT = 10
   \<and> ROWS_DEFAULT TABLE_OPT \<in> set (ROWS_OPTIONS TABLE_OPT)
   \<and> ROWS_OPTIONS TABLE_OPT = [10, 25, 50]
   \<and> sorted_wrt (<) (ROWS_OPTIONS TABLE_OPT)"
  by (simp add: TABLE_OPT_def)

subsection \<open>Status vocabularies\<close>

text \<open>
  C5: \<^verbatim>\<open>CONNECTION_STATUSES\<close> holds exactly 3 values, they are pairwise distinct,
  and the set of values is invitation, active, response.
\<close>

theorem connection_statuses_values:
  "length (connection_status_values CONNECTION_STATUSES) = 3
   \<and> distinct (connection_status_values CONNECTION_STATUSES)
   \<and> set (connection_status_values CONNECTION_STATUSES)
       = {''invitation'', ''active'', ''response''}
   \<and> connection_status_values CONNECTION_STATUSES
       = [''invitation'', ''active'', ''response'']"
  by (simp add: connection_status_values_def CONNECTION_STATUSES_def)

text \<open>
  C6: \<^verbatim>\<open>RESERVATION_STATUSES\<close> holds exactly 5 pairwise distinct values: approved,
  checked_in, denied, requested and the UI-only show_wallet; and show_wallet is none of
  the four values the API reports.
\<close>

theorem reservation_statuses_values:
  "reservation_status_values RESERVATION_STATUSES
     = [''approved'', ''checked_in'', ''denied'', ''requested'', ''show_wallet'']
   \<and> length (reservation_status_values RESERVATION_STATUSES) = 5
   \<and> distinct (reservation_status_values RESERVATION_STATUSES)
   \<and> SHOW_WALLET RESERVATION_STATUSES = ''show_wallet''
   \<and> SHOW_WALLET RESERVATION_STATUSES
       \<notin> set (reservation_api_status_values RESERVATION_STATUSES)"
  by (simp add: reservation_status_values_def reservation_api_status_values_def
      RESERVATION_STATUSES_def)

end
